theory Spec2Isabelle
  imports Main
begin

section \<open>Python strings\<close>

text \<open>
  A Python \<open>str\<close> is a sequence of code points and \<open>len\<close> counts code points. The model
  is \<open>string\<close>, where a \<open>char\<close> stands for one code point below 256 (not for a byte of
  an encoding), so \<open>length\<close> is \<open>len\<close>.

  \<open>str.isspace\<close> on one character: the code points below 256 that CPython treats as
  whitespace are TAB, LF, VT, FF, CR, FS, GS, RS, US, SPACE, NEL and NBSP.
\<close>

definition isspace :: "char \<Rightarrow> bool" where
  "isspace c = (of_char c \<in> {9, 10, 11, 12, 13, 28, 29, 30, 31, 32, 133, 160 :: nat})"

text \<open>\<open>s.strip()\<close>: leading and trailing whitespace removed.\<close>

definition strip :: "string \<Rightarrow> string" where
  "strip s = rev (dropWhile isspace (rev (dropWhile isspace s)))"

text \<open>
  \<open>s.split(sep)\<close> for a separator of one character: the pieces between the separators,
  empty pieces kept, always at least one piece.
\<close>

fun split :: "char \<Rightarrow> string \<Rightarrow> string list" where
  "split sep [] = [[]]"
| "split sep (c # cs) =
     (if c = sep then [] # split sep cs
      else (c # hd (split sep cs)) # tl (split sep cs))"

text \<open>Decimal rendering of a non-negative integer, and \<open>%0wd\<close> zero padding.\<close>

definition digit :: "nat \<Rightarrow> char" where
  "digit n = ''0123456789'' ! (n mod 10)"

fun str_nat :: "nat \<Rightarrow> string" where
  "str_nat n = (if n < 10 then [digit n] else str_nat (n div 10) @ [digit (n mod 10)])"

declare str_nat.simps [simp del]

definition zfill :: "nat \<Rightarrow> nat \<Rightarrow> string" where
  "zfill w n = replicate (w - length (str_nat n)) (CHR ''0'') @ str_nat n"

section \<open>\<open>datetime\<close>\<close>

text \<open>
  The value of \<open>datetime.now(timezone.utc)\<close>: an aware datetime whose offset is zero.
\<close>

record datetime =
  year :: nat
  month :: nat
  day :: nat
  hour :: nat
  minute :: nat
  second :: nat
  microsecond :: nat

text \<open>
  \<open>datetime.isoformat()\<close> with the default separator and \<open>timespec='auto'\<close>:
  \<open>%04d-%02d-%02dT%02d:%02d:%02d\<close>, then \<open>.%06d\<close> only when the microsecond is not
  zero, then the offset, which is \<open>+00:00\<close> for \<open>timezone.utc\<close>.
\<close>

definition isoformat :: "datetime \<Rightarrow> string" where
  "isoformat dt =
     zfill 4 (year dt) @ ''-'' @ zfill 2 (month dt) @ ''-'' @ zfill 2 (day dt) @ ''T''
     @ zfill 2 (hour dt) @ '':'' @ zfill 2 (minute dt) @ '':'' @ zfill 2 (second dt)
     @ (if microsecond dt \<noteq> 0 then ''.'' @ zfill 6 (microsecond dt) else '''')
     @ ''+00:00''"

section \<open>Exceptions and responses\<close>

datatype exn =
  HTTPException nat string
| TelegramError string
| Exception string

text \<open>
  \<open>str(e)\<close>. For \<open>HTTPException\<close> it is Starlette's \<open>__str__\<close>,
  \<open>f"{status_code}: {detail}"\<close>; the other two carry their message.
\<close>

fun str :: "exn \<Rightarrow> string" where
  "str (HTTPException status_code detail) = str_nat status_code @ '': '' @ detail"
| "str (TelegramError m) = m"
| "str (Exception m) = m"

datatype json = JBool bool | JStr string

type_synonym dict = "(string \<times> json) list"

section \<open>The application\<close>

text \<open>
  The keyword arguments of one \<open>bot.send_message\<close> call; the field \<open>text'\<close> is the
  argument \<open>text\<close>.
\<close>

record send_request =
  chat_id :: "string option"
  text' :: string
  parse_mode :: string
  disable_notification :: bool

text \<open>
  What the handler does to the messaging library, in order: constructing a \<open>Bot\<close> with a
  token, and sending a message through it.
\<close>

datatype call = Bot_init "string option" | Bot_send_message send_request

text \<open>
  Everything the handler reads from outside itself: the two environment variables
  (\<open>os.getenv\<close> gives \<open>None\<close> for an absent one), the clock, and the messaging library,
  whose constructor and whose \<open>send_message\<close> either return (\<open>None\<close>) or raise.
\<close>

record world =
  TELEGRAM_BOT_TOKEN :: "string option"
  TELEGRAM_CHAT_ID :: "string option"
  utc_now :: datetime
  Bot :: "string option \<Rightarrow> exn option"
  bot_send_message :: "send_request \<Rightarrow> exn option"

text \<open>\<open>health_check\<close>, lines 29 to 35.\<close>

definition health_check :: "world \<Rightarrow> dict" where
  "health_check w =
     [(''status'', JStr ''healthy''),
      (''message'', JStr ''Telegram backend is running''),
      (''timestamp'', JStr (isoformat (utc_now w) @ '' UTC''))]"

text \<open>The f-string of lines 73 to 83.\<close>

definition telegram_message :: "string \<Rightarrow> string \<Rightarrow> string \<Rightarrow> string \<Rightarrow> string" where
  "telegram_message timestamp name email message =
     ''*New Message*\<newline>''
     @ ''_Received on: '' @ timestamp @ ''_\<newline>''
     @ ''---\<newline>''
     @ ''*Sender Details:*\<newline>''
     @ ''- *Name:* '' @ name @ ''\<newline>''
     @ ''- *Email:* '' @ email @ ''\<newline>''
     @ ''---\<newline>''
     @ ''*Message:*\<newline>''
     @ message"

text \<open>
  Lines 72 to 83 and 90 to 93: the timestamp, the text, and the arguments that
  \<open>bot.send_message\<close> is called with, from the three trimmed fields.
\<close>

definition notification :: "world \<Rightarrow> string \<Rightarrow> string \<Rightarrow> string \<Rightarrow> send_request" where
  "notification w name email message =
     (let timestamp = hd (split (CHR ''.'') (isoformat (utc_now w))) @ '' UTC''
      in \<lparr>chat_id = TELEGRAM_CHAT_ID w,
          text' = telegram_message timestamp name email message,
          parse_mode = ''Markdown'',
          disable_notification = True\<rparr>)"

record MessageData =
  name :: string
  email :: string
  message :: string

text \<open>
  The body of the outer \<open>try\<close> of \<open>send_message\<close>, lines 61 to 99: the value returned or
  the exception raised there, and the calls made to the messaging library.
  In line 69 the right operand of \<open>or\<close> is evaluated only when the email has an \<open>@\<close>, and
  then the list has an element at index 1 (\<open>split_index_1_in_range\<close> below).
  The \<open>Bot\<close> of line 87 is constructed outside the inner \<open>try\<close>, so whatever it raises
  leaves the body as it is; the inner \<open>except\<close> turns a \<open>TelegramError\<close> of
  \<open>bot.send_message\<close> into an \<open>HTTPException\<close> with status 500 and lets anything else
  pass.
\<close>

definition send_message_try :: "world \<Rightarrow> MessageData \<Rightarrow> (exn + dict) \<times> call list" where
  "send_message_try w data =
     (let name = strip (MessageData.name data);
          email = strip (MessageData.email data);
          message = strip (MessageData.message data)
      in
      if \<not> list_all (\<lambda>s. s \<noteq> []) [name, email, message] then
        (Inl (HTTPException 400 ''All fields must not be empty''), [])
      else if length message > 4096 then
        (Inl (HTTPException 400 ''Message exceeds 4096 character limit''), [])
      else if CHR ''@'' \<notin> set email \<or> CHR ''.'' \<notin> set (split (CHR ''@'') email ! 1) then
        (Inl (HTTPException 400 ''Invalid email format''), [])
      else
        case Bot w (TELEGRAM_BOT_TOKEN w) of
          Some e \<Rightarrow> (Inl e, [Bot_init (TELEGRAM_BOT_TOKEN w)])
        | None \<Rightarrow>
            let request = notification w name email message;
                calls = [Bot_init (TELEGRAM_BOT_TOKEN w), Bot_send_message request]
            in
            (case bot_send_message w request of
               None \<Rightarrow>
                 (Inr [(''success'', JBool True),
                       (''message'', JStr ''Message sent to Telegram'')], calls)
             | Some (TelegramError m) \<Rightarrow>
                 (Inl (HTTPException 500 (''Failed to send message: '' @ m)), calls)
             | Some e \<Rightarrow> (Inl e, calls)))"

text \<open>
  \<open>send_message\<close>, lines 58 to 102: the outer \<open>except Exception\<close> catches every exception
  of the body and raises an \<open>HTTPException\<close> with status 500 in its place.
\<close>

definition send_message :: "world \<Rightarrow> MessageData \<Rightarrow> (exn + dict) \<times> call list" where
  "send_message w data =
     (case send_message_try w data of
        (Inl e, calls) \<Rightarrow> (Inl (HTTPException 500 (''Server error: '' @ str e)), calls)
      | (Inr r, calls) \<Rightarrow> (Inr r, calls))"

section \<open>Example inputs\<close>

text \<open>A clock reading with a non-zero microsecond, and one on the full second.\<close>

definition example_now :: datetime where
  "example_now =
     \<lparr>year = 2024, month = 1, day = 2, hour = 3, minute = 4, second = 5,
      microsecond = 123456\<rparr>"

definition example_now_full_second :: datetime where
  "example_now_full_second =
     \<lparr>year = 2024, month = 1, day = 2, hour = 3, minute = 4, second = 5, microsecond = 0\<rparr>"

text \<open>A world whose messaging library accepts everything, and one whose sends fail.\<close>

definition accepting_world :: world where
  "accepting_world =
     \<lparr>TELEGRAM_BOT_TOKEN = Some ''123456:token'', TELEGRAM_CHAT_ID = Some ''42'',
      utc_now = example_now, Bot = (\<lambda>_. None), bot_send_message = (\<lambda>_. None)\<rparr>"

definition failing_world :: world where
  "failing_world =
     \<lparr>TELEGRAM_BOT_TOKEN = Some ''123456:token'', TELEGRAM_CHAT_ID = Some ''42'',
      utc_now = example_now, Bot = (\<lambda>_. None),
      bot_send_message = (\<lambda>_. Some (TelegramError ''boom''))\<rparr>"

text \<open>Request bodies: a valid one, and one failing each validation rule.\<close>

definition valid_submission :: MessageData where
  "valid_submission = \<lparr>name = '' Al '', email = ''al@example.org'', message = ''hi there ''\<rparr>"

definition blank_name_submission :: MessageData where
  "blank_name_submission = \<lparr>name = ''   '', email = ''al@example.org'', message = ''hi''\<rparr>"

definition long_submission :: MessageData where
  "long_submission = \<lparr>name = ''Al'', email = ''al'', message = replicate 4097 (CHR ''a'')\<rparr>"

definition no_at_submission :: MessageData where
  "no_at_submission = \<lparr>name = ''Al'', email = ''al.example.org'', message = ''hi''\<rparr>"

section \<open>Facts about the string functions\<close>

lemma split_not_Nil: "split sep s \<noteq> []"
  by (induction s) auto

lemma hd_split: "hd (split sep s) = takeWhile (\<lambda>c. c \<noteq> sep) s"
  by (induction s) auto

lemma length_split: "length (split sep s) = Suc (count_list s sep)"
proof (induction s)
  case Nil
  show ?case by simp
next
  case (Cons c cs)
  have "length (tl (split sep cs)) = count_list cs sep"
    using Cons.IH by simp
  with Cons.IH show ?case by simp
qed

lemma split_index_1_in_range: "sep \<in> set s \<Longrightarrow> 1 < length (split sep s)"
  using count_list_0_iff [of s sep] by (simp add: length_split)

lemma split_nth_1:
  "sep \<in> set s \<Longrightarrow>
   split sep s ! 1 = takeWhile (\<lambda>c. c \<noteq> sep) (tl (dropWhile (\<lambda>c. c \<noteq> sep) s))"
proof (induction s)
  case Nil
  then show ?case by simp
next
  case (Cons c cs)
  show ?case
  proof (cases "c = sep")
    case True
    have "split sep cs ! 0 = hd (split sep cs)"
      using split_not_Nil [of sep cs] by (simp add: hd_conv_nth)
    with True show ?thesis by (simp add: hd_split)
  next
    case False
    with Cons.prems have mem: "sep \<in> set cs" by simp
    have "tl (split sep cs) ! 0 = split sep cs ! 1"
      using split_index_1_in_range [OF mem] by (simp add: nth_tl)
    with False Cons.IH [OF mem] show ?thesis by simp
  qed
qed

lemma digit_is_digit: "digit n \<in> set ''0123456789''"
  unfolding digit_def by (rule nth_mem) simp

lemma str_nat_digits: "set (str_nat n) \<subseteq> set ''0123456789''"
proof (induction n rule: str_nat.induct)
  case (1 n)
  show ?case
  proof (cases "n < 10")
    case True
    then have "str_nat n = [digit n]" by (simp add: str_nat.simps)
    then show ?thesis using digit_is_digit [of n] by simp
  next
    case False
    then have "str_nat n = str_nat (n div 10) @ [digit (n mod 10)]"
      by (simp add: str_nat.simps)
    then show ?thesis using "1.IH" [OF False] digit_is_digit [of "n mod 10"] by simp
  qed
qed

lemma zfill_digits: "set (zfill w n) \<subseteq> set ''0123456789''"
  using str_nat_digits [of n] by (auto simp: zfill_def)

lemma zfill_no_dot: "CHR ''.'' \<notin> set (zfill w n)"
  using zfill_digits [of w n] by auto

lemma str_nat_400: "str_nat 400 = ''400''"
  by (simp add: str_nat.simps digit_def)

lemma str_nat_500: "str_nat 500 = ''500''"
  by (simp add: str_nat.simps digit_def)

lemma try_empty:
  assumes "strip (name d) = [] \<or> strip (email d) = [] \<or> strip (message d) = []"
  shows "send_message_try w d = (Inl (HTTPException 400 ''All fields must not be empty''), [])"
  using assms by (auto simp: send_message_try_def)

lemma try_too_long:
  assumes "strip (name d) \<noteq> []" "strip (email d) \<noteq> []" "strip (message d) \<noteq> []"
    and "4096 < length (strip (message d))"
  shows "send_message_try w d =
           (Inl (HTTPException 400 ''Message exceeds 4096 character limit''), [])"
  using assms by (simp add: send_message_try_def)

lemma try_bad_email:
  assumes "strip (name d) \<noteq> []" "strip (email d) \<noteq> []" "strip (message d) \<noteq> []"
    and "length (strip (message d)) \<le> 4096"
    and "CHR ''@'' \<notin> set (strip (email d))
         \<or> CHR ''.'' \<notin> set (split (CHR ''@'') (strip (email d)) ! 1)"
  shows "send_message_try w d = (Inl (HTTPException 400 ''Invalid email format''), [])"
  using assms by (auto simp: send_message_try_def)

lemma try_valid:
  assumes "strip (name d) \<noteq> []" "strip (email d) \<noteq> []" "strip (message d) \<noteq> []"
    and "length (strip (message d)) \<le> 4096"
    and "CHR ''@'' \<in> set (strip (email d))"
    and "CHR ''.'' \<in> set (split (CHR ''@'') (strip (email d)) ! 1)"
  shows "send_message_try w d =
           (case Bot w (TELEGRAM_BOT_TOKEN w) of
              Some e \<Rightarrow> (Inl e, [Bot_init (TELEGRAM_BOT_TOKEN w)])
            | None \<Rightarrow>
                (case bot_send_message w
                        (notification w (strip (name d)) (strip (email d)) (strip (message d))) of
                   None \<Rightarrow>
                     (Inr [(''success'', JBool True),
                           (''message'', JStr ''Message sent to Telegram'')],
                      [Bot_init (TELEGRAM_BOT_TOKEN w),
                       Bot_send_message
                         (notification w (strip (name d)) (strip (email d)) (strip (message d)))])
                 | Some (TelegramError m) \<Rightarrow>
                     (Inl (HTTPException 500 (''Failed to send message: '' @ m)),
                      [Bot_init (TELEGRAM_BOT_TOKEN w),
                       Bot_send_message
                         (notification w (strip (name d)) (strip (email d)) (strip (message d)))])
                 | Some e \<Rightarrow>
                     (Inl e,
                      [Bot_init (TELEGRAM_BOT_TOKEN w),
                       Bot_send_message
                         (notification w (strip (name d)) (strip (email d)) (strip (message d)))])))"
  using assms by (simp add: send_message_try_def Let_def split: option.splits exn.splits)

lemma send_message_Inl:
  "send_message_try w d = (Inl e, cs) \<Longrightarrow>
   send_message w d = (Inl (HTTPException 500 (''Server error: '' @ str e)), cs)"
  by (simp add: send_message_def)

lemma strip_id:
  assumes "s \<noteq> []" "\<not> isspace (hd s)" "\<not> isspace (last s)"
  shows "strip s = s"
proof -
  have 1: "dropWhile isspace s = s"
    using assms by (simp add: dropWhile_eq_self_iff)
  have "hd (rev s) = last s" using assms(1) by (simp add: hd_rev)
  then have 2: "dropWhile isspace (rev s) = rev s"
    using assms by (simp add: dropWhile_eq_self_iff)
  show ?thesis by (simp add: strip_def 1 2)
qed

lemma strip_long: "strip (replicate 4097 (CHR ''a'')) = replicate 4097 (CHR ''a'')"
  by (rule strip_id) (simp_all add: isspace_def)

section \<open>Facts about the timestamp\<close>

lemma takeWhile_no_sep:
  "sep \<notin> set xs \<Longrightarrow>
   takeWhile (\<lambda>c. c \<noteq> sep) (xs @ ys) = xs @ takeWhile (\<lambda>c. c \<noteq> sep) ys"
  by (induction xs) auto

lemma hd_split_isoformat:
  "hd (split (CHR ''.'') (isoformat dt)) =
     zfill 4 (year dt) @ ''-'' @ zfill 2 (month dt) @ ''-'' @ zfill 2 (day dt) @ ''T''
     @ zfill 2 (hour dt) @ '':'' @ zfill 2 (minute dt) @ '':'' @ zfill 2 (second dt)
     @ (if microsecond dt = 0 then ''+00:00'' else '''')"
  by (simp add: hd_split isoformat_def takeWhile_no_sep zfill_no_dot)

lemma length_str_nat: "0 < k \<Longrightarrow> n < 10 ^ k \<Longrightarrow> length (str_nat n) \<le> k"
proof (induction k arbitrary: n)
  case 0
  then show ?case by simp
next
  case (Suc k)
  show ?case
  proof (cases "n < 10")
    case True
    then show ?thesis by (subst str_nat.simps) simp
  next
    case False
    with Suc.prems have k: "0 < k" by (cases k) auto
    from Suc.prems have "n < 10 ^ k * 10" by simp
    then have "n div 10 < 10 ^ k" by (rule less_mult_imp_div_less)
    from Suc.IH [OF k this] have "length (str_nat (n div 10)) \<le> k" .
    moreover have "str_nat n = str_nat (n div 10) @ [digit (n mod 10)]"
      using False by (subst str_nat.simps) simp
    ultimately show ?thesis by simp
  qed
qed

lemma length_zfill:
  assumes "0 < k" "n < 10 ^ k"
  shows "length (zfill k n) = k"
proof -
  have "length (str_nat n) \<le> k" using assms by (rule length_str_nat)
  then show ?thesis unfolding zfill_def by simp
qed

section \<open>The e-mail check of line 69\<close>

text \<open>
  The piece at index 1 is the text between the first \<open>@\<close> and the next one, a prefix
  of the text after the first \<open>@\<close>. So an e-mail with no dot after its first \<open>@\<close> fails
  the check, and an e-mail with exactly one \<open>@\<close> and a dot after it passes.
\<close>

lemma email_without_dot_after_at:
  assumes at: "CHR ''@'' \<in> set e"
    and "CHR ''.'' \<notin> set (tl (dropWhile (\<lambda>c. c \<noteq> CHR ''@'') e))"
  shows "CHR ''.'' \<notin> set (split (CHR ''@'') e ! 1)"
proof
  assume "CHR ''.'' \<in> set (split (CHR ''@'') e ! 1)"
  then have "CHR ''.'' \<in> set (takeWhile (\<lambda>c. c \<noteq> CHR ''@'')
                                  (tl (dropWhile (\<lambda>c. c \<noteq> CHR ''@'') e)))"
    unfolding split_nth_1 [OF at] .
  then have "CHR ''.'' \<in> set (tl (dropWhile (\<lambda>c. c \<noteq> CHR ''@'') e))"
    by (rule set_takeWhileD [THEN conjunct1])
  with assms(2) show False by contradiction
qed

lemma count_list_one_split:
  assumes one: "count_list e sep = 1"
  shows "sep \<notin> set (tl (dropWhile (\<lambda>c. c \<noteq> sep) e))"
  using assms
proof (induction e)
  case Nil
  then show ?case by simp
next
  case (Cons c cs)
  show ?case
  proof (cases "c = sep")
    case True
    with Cons.prems have "count_list cs sep = 0" by simp
    with True show ?thesis by (simp add: count_list_0_iff)
  next
    case False
    with Cons show ?thesis by simp
  qed
qed

lemma email_one_at_dotted_domain:
  assumes one: "count_list e (CHR ''@'') = 1"
    and dot: "CHR ''.'' \<in> set (tl (dropWhile (\<lambda>c. c \<noteq> CHR ''@'') e))"
  shows "CHR ''@'' \<in> set e \<and> CHR ''.'' \<in> set (split (CHR ''@'') e ! 1)"
proof
  let ?dom = "tl (dropWhile (\<lambda>c. c \<noteq> CHR ''@'') e)"
  have "count_list e (CHR ''@'') \<noteq> 0" unfolding one by simp
  then show mem: "CHR ''@'' \<in> set e"
    unfolding count_list_0_iff by simp
  have "CHR ''@'' \<notin> set ?dom"
    using one by (rule count_list_one_split)
  then have "\<forall>c\<in>set ?dom. c \<noteq> CHR ''@''" by blast
  then have "takeWhile (\<lambda>c. c \<noteq> CHR ''@'') ?dom = ?dom"
    unfolding takeWhile_eq_all_conv .
  then have "split (CHR ''@'') e ! 1 = ?dom"
    unfolding split_nth_1 [OF mem] .
  then show "CHR ''.'' \<in> set (split (CHR ''@'') e ! 1)"
    using dot by (rule ssubst)
qed

section \<open>The example inputs, trimmed\<close>

lemma valid_submission_facts:
  "strip (name valid_submission) = ''Al''"
  "strip (email valid_submission) = ''al@example.org''"
  "strip (message valid_submission) = ''hi there''"
  by (simp_all add: valid_submission_def strip_def isspace_def)

lemma zfill_examples:
  "zfill 4 2024 = ''2024''" "zfill 2 (Suc 0) = ''01''" "zfill 2 2 = ''02''"
  "zfill 2 3 = ''03''" "zfill 2 4 = ''04''" "zfill 2 5 = ''05''"
  "zfill 6 123456 = ''123456''"
  by (simp_all add: zfill_def str_nat.simps digit_def)

section \<open>The outer exception handler\<close>

text \<open>
  Claim C3. Every exception raised inside the \<open>try\<close> block of \<open>send_message\<close> reaches the
  caller as an \<open>HTTPException\<close> with status 500 whose detail starts with
  \<open>Server error: \<close>, followed by \<open>str\<close> of the exception. The three validation failures are
  raised inside that block as \<open>HTTPException\<close>s with status 400, so they too are answered
  with status 500, the detail naming the 400 and its reason. No failure of the handler has
  any other form.
\<close>

theorem every_failure_is_status_500:
  "(\<forall>e. fst (send_message_try w d) = Inl e \<longrightarrow>
        fst (send_message w d) = Inl (HTTPException 500 (''Server error: '' @ str e)))
   \<and> (strip (name d) = [] \<or> strip (email d) = [] \<or> strip (message d) = [] \<longrightarrow>
        fst (send_message w d) =
          Inl (HTTPException 500 ''Server error: 400: All fields must not be empty''))
   \<and> (strip (name d) \<noteq> [] \<and> strip (email d) \<noteq> [] \<and> strip (message d) \<noteq> []
        \<and> 4096 < length (strip (message d)) \<longrightarrow>
        fst (send_message w d) =
          Inl (HTTPException 500 ''Server error: 400: Message exceeds 4096 character limit''))
   \<and> (strip (name d) \<noteq> [] \<and> strip (email d) \<noteq> [] \<and> strip (message d) \<noteq> []
        \<and> length (strip (message d)) \<le> 4096
        \<and> (CHR ''@'' \<notin> set (strip (email d))
             \<or> CHR ''.'' \<notin> set (split (CHR ''@'') (strip (email d)) ! 1)) \<longrightarrow>
        fst (send_message w d) =
          Inl (HTTPException 500 ''Server error: 400: Invalid email format''))
   \<and> (\<forall>e. fst (send_message w d) = Inl e \<longrightarrow>
        (\<exists>m. e = HTTPException 500 (''Server error: '' @ m)))"
proof (intro conjI allI impI)
  fix e assume "fst (send_message_try w d) = Inl e"
  then show "fst (send_message w d) = Inl (HTTPException 500 (''Server error: '' @ str e))"
    by (cases "send_message_try w d") (simp add: send_message_def)
next
  assume "strip (name d) = [] \<or> strip (email d) = [] \<or> strip (message d) = []"
  from send_message_Inl [OF try_empty [OF this]]
  show "fst (send_message w d) =
          Inl (HTTPException 500 ''Server error: 400: All fields must not be empty'')"
    by (simp add: str_nat_400)
next
  assume "strip (name d) \<noteq> [] \<and> strip (email d) \<noteq> [] \<and> strip (message d) \<noteq> []
        \<and> 4096 < length (strip (message d))"
  then have "send_message_try w d =
      (Inl (HTTPException 400 ''Message exceeds 4096 character limit''), [])"
    by (simp add: try_too_long)
  from send_message_Inl [OF this]
  show "fst (send_message w d) =
          Inl (HTTPException 500 ''Server error: 400: Message exceeds 4096 character limit'')"
    by (simp add: str_nat_400)
next
  assume "strip (name d) \<noteq> [] \<and> strip (email d) \<noteq> [] \<and> strip (message d) \<noteq> []
        \<and> length (strip (message d)) \<le> 4096
        \<and> (CHR ''@'' \<notin> set (strip (email d))
             \<or> CHR ''.'' \<notin> set (split (CHR ''@'') (strip (email d)) ! 1))"
  then have "send_message_try w d = (Inl (HTTPException 400 ''Invalid email format''), [])"
    by (intro try_bad_email) simp_all
  from send_message_Inl [OF this]
  show "fst (send_message w d) =
          Inl (HTTPException 500 ''Server error: 400: Invalid email format'')"
    by (simp add: str_nat_400)
next
  fix e assume "fst (send_message w d) = Inl e"
  then show "\<exists>m. e = HTTPException 500 (''Server error: '' @ m)"
    by (cases "send_message_try w d") (auto simp: send_message_def split: sum.splits)
qed

theorem every_failure_is_status_500_witness:
  "fst (send_message_try accepting_world blank_name_submission) =
       Inl (HTTPException 400 ''All fields must not be empty'')
   \<and> strip (name blank_name_submission) = []
   \<and> fst (send_message accepting_world blank_name_submission) =
       Inl (HTTPException 500 ''Server error: 400: All fields must not be empty'')
   \<and> strip (name long_submission) \<noteq> [] \<and> strip (email long_submission) \<noteq> []
   \<and> strip (message long_submission) \<noteq> []
   \<and> 4096 < length (strip (message long_submission))
   \<and> fst (send_message accepting_world long_submission) =
       Inl (HTTPException 500 ''Server error: 400: Message exceeds 4096 character limit'')
   \<and> strip (name no_at_submission) \<noteq> [] \<and> strip (email no_at_submission) \<noteq> []
   \<and> strip (message no_at_submission) \<noteq> []
   \<and> length (strip (message no_at_submission)) \<le> 4096
   \<and> CHR ''@'' \<notin> set (strip (email no_at_submission))
   \<and> fst (send_message accepting_world no_at_submission) =
       Inl (HTTPException 500 ''Server error: 400: Invalid email format'')"
proof -
  have blank: "strip (name blank_name_submission) = []"
    by (simp add: blank_name_submission_def strip_def isspace_def)
  then have raised: "fst (send_message_try accepting_world blank_name_submission) =
       Inl (HTTPException 400 ''All fields must not be empty'')"
    by (simp add: try_empty)
  have long: "strip (name long_submission) \<noteq> []" "strip (email long_submission) \<noteq> []"
    "strip (message long_submission) \<noteq> []" "4096 < length (strip (message long_submission))"
    by (simp_all add: long_submission_def strip_long) (simp_all add: strip_def isspace_def)
  have no_at: "strip (name no_at_submission) \<noteq> []" "strip (email no_at_submission) \<noteq> []"
    "strip (message no_at_submission) \<noteq> []" "length (strip (message no_at_submission)) \<le> 4096"
    "CHR ''@'' \<notin> set (strip (email no_at_submission))"
    by (simp_all add: no_at_submission_def strip_def isspace_def)
  show ?thesis
    using every_failure_is_status_500 [of accepting_world blank_name_submission]
      every_failure_is_status_500 [of accepting_world long_submission]
      every_failure_is_status_500 [of accepting_world no_at_submission]
      raised blank long no_at
    by (simp add: str_nat_400)
qed

section \<open>Delivery\<close>

text \<open>
  Claim C5. For a submission whose three trimmed fields are not empty, whose trimmed
  message has at most 4096 characters and whose trimmed e-mail passes the check of line 69,
  when the \<open>Bot\<close> is constructed and its \<open>send_message\<close> returns, the handler returns
  exactly the dictionary with \<open>success\<close> true and \<open>message\<close> "Message sent to Telegram".
\<close>

theorem success_body:
  assumes "strip (name d) \<noteq> []" "strip (email d) \<noteq> []" "strip (message d) \<noteq> []"
    and "length (strip (message d)) \<le> 4096"
    and "CHR ''@'' \<in> set (strip (email d))"
    and "CHR ''.'' \<in> set (split (CHR ''@'') (strip (email d)) ! 1)"
    and "Bot w (TELEGRAM_BOT_TOKEN w) = None"
    and "bot_send_message w
           (notification w (strip (name d)) (strip (email d)) (strip (message d))) = None"
  shows "fst (send_message w d) =
           Inr [(''success'', JBool True), (''message'', JStr ''Message sent to Telegram'')]"
proof -
  have "fst (send_message_try w d) =
          Inr [(''success'', JBool True), (''message'', JStr ''Message sent to Telegram'')]"
    using assms(7,8) by (simp add: try_valid [OF assms(1-6)])
  then show ?thesis
    by (cases "send_message_try w d") (simp add: send_message_def)
qed

theorem success_body_witness:
  "strip (name valid_submission) \<noteq> [] \<and> strip (email valid_submission) \<noteq> []
   \<and> strip (message valid_submission) \<noteq> []
   \<and> length (strip (message valid_submission)) \<le> 4096
   \<and> CHR ''@'' \<in> set (strip (email valid_submission))
   \<and> CHR ''.'' \<in> set (split (CHR ''@'') (strip (email valid_submission)) ! 1)
   \<and> Bot accepting_world (TELEGRAM_BOT_TOKEN accepting_world) = None
   \<and> bot_send_message accepting_world
         (notification accepting_world (strip (name valid_submission))
            (strip (email valid_submission)) (strip (message valid_submission))) = None
   \<and> fst (send_message accepting_world valid_submission) =
         Inr [(''success'', JBool True), (''message'', JStr ''Message sent to Telegram'')]"
proof -
  have h: "strip (name valid_submission) \<noteq> []" "strip (email valid_submission) \<noteq> []"
    "strip (message valid_submission) \<noteq> []"
    "length (strip (message valid_submission)) \<le> 4096"
    "CHR ''@'' \<in> set (strip (email valid_submission))"
    "CHR ''.'' \<in> set (split (CHR ''@'') (strip (email valid_submission)) ! 1)"
    by (simp_all add: valid_submission_facts)
  have b: "Bot accepting_world (TELEGRAM_BOT_TOKEN accepting_world) = None"
    "bot_send_message accepting_world
         (notification accepting_world (strip (name valid_submission))
            (strip (email valid_submission)) (strip (message valid_submission))) = None"
    by (simp_all add: accepting_world_def)
  from success_body [OF h b] h b show ?thesis by simp
qed

text \<open>
  Claim C6. For such a submission, when \<open>bot.send_message\<close> raises a \<open>TelegramError\<close>
  whose text is \<open>boom\<close>, the handler raises an \<open>HTTPException\<close> with status 500 whose
  detail ends with that text: the inner handler puts it after
  \<open>Failed to send message: \<close>, and the outer handler puts \<open>str\<close> of that exception after
  \<open>Server error: \<close>.
\<close>

theorem delivery_error_detail:
  assumes "strip (name d) \<noteq> []" "strip (email d) \<noteq> []" "strip (message d) \<noteq> []"
    and "length (strip (message d)) \<le> 4096"
    and "CHR ''@'' \<in> set (strip (email d))"
    and "CHR ''.'' \<in> set (split (CHR ''@'') (strip (email d)) ! 1)"
    and "Bot w (TELEGRAM_BOT_TOKEN w) = None"
    and "bot_send_message w
           (notification w (strip (name d)) (strip (email d)) (strip (message d)))
         = Some (TelegramError boom)"
  shows "fst (send_message w d) =
           Inl (HTTPException 500 (''Server error: 500: Failed to send message: '' @ boom))"
proof -
  have "fst (send_message_try w d) =
          Inl (HTTPException 500 (''Failed to send message: '' @ boom))"
    using assms(7,8) by (simp add: try_valid [OF assms(1-6)])
  then show ?thesis
    by (cases "send_message_try w d") (simp add: send_message_def str_nat_500)
qed

theorem delivery_error_detail_witness:
  "strip (name valid_submission) \<noteq> [] \<and> strip (email valid_submission) \<noteq> []
   \<and> strip (message valid_submission) \<noteq> []
   \<and> length (strip (message valid_submission)) \<le> 4096
   \<and> CHR ''@'' \<in> set (strip (email valid_submission))
   \<and> CHR ''.'' \<in> set (split (CHR ''@'') (strip (email valid_submission)) ! 1)
   \<and> Bot failing_world (TELEGRAM_BOT_TOKEN failing_world) = None
   \<and> bot_send_message failing_world
         (notification failing_world (strip (name valid_submission))
            (strip (email valid_submission)) (strip (message valid_submission)))
       = Some (TelegramError ''boom'')
   \<and> fst (send_message failing_world valid_submission) =
         Inl (HTTPException 500 ''Server error: 500: Failed to send message: boom'')"
proof -
  have h: "strip (name valid_submission) \<noteq> []" "strip (email valid_submission) \<noteq> []"
    "strip (message valid_submission) \<noteq> []"
    "length (strip (message valid_submission)) \<le> 4096"
    "CHR ''@'' \<in> set (strip (email valid_submission))"
    "CHR ''.'' \<in> set (split (CHR ''@'') (strip (email valid_submission)) ! 1)"
    by (simp_all add: valid_submission_facts)
  have b: "Bot failing_world (TELEGRAM_BOT_TOKEN failing_world) = None"
    "bot_send_message failing_world
         (notification failing_world (strip (name valid_submission))
            (strip (email valid_submission)) (strip (message valid_submission)))
       = Some (TelegramError ''boom'')"
    by (simp_all add: failing_world_def)
  from delivery_error_detail [OF h b] h b show ?thesis by simp
qed

section \<open>Validation comes before any call\<close>

text \<open>
  Claim C7. For a submission that fails a validation rule (an empty trimmed field, a
  trimmed message of more than 4096 characters, or an e-mail failing the check of line
  69), the handler fails without having made any call to the messaging library, whatever
  that library would have done.
\<close>

theorem no_call_on_validation_failure:
  assumes "strip (name d) = [] \<or> strip (email d) = [] \<or> strip (message d) = []
           \<or> 4096 < length (strip (message d))
           \<or> CHR ''@'' \<notin> set (strip (email d))
           \<or> CHR ''.'' \<notin> set (split (CHR ''@'') (strip (email d)) ! 1)"
  shows "snd (send_message w d) = [] \<and> (\<exists>e. fst (send_message w d) = Inl e)"
proof -
  have "\<exists>e. send_message_try w d = (Inl e, [])"
  proof (cases "strip (name d) = [] \<or> strip (email d) = [] \<or> strip (message d) = []")
    case True
    then show ?thesis by (simp add: try_empty)
  next
    case nonempty: False
    show ?thesis
    proof (cases "4096 < length (strip (message d))")
      case True
      with nonempty show ?thesis by (simp add: try_too_long)
    next
      case False
      with nonempty assms
      have "CHR ''@'' \<notin> set (strip (email d))
            \<or> CHR ''.'' \<notin> set (split (CHR ''@'') (strip (email d)) ! 1)"
        by blast
      with nonempty False have "send_message_try w d =
          (Inl (HTTPException 400 ''Invalid email format''), [])"
        by (intro try_bad_email) simp_all
      then show ?thesis by simp
    qed
  qed
  then obtain e where "send_message_try w d = (Inl e, [])" ..
  then show ?thesis by (simp add: send_message_def)
qed

theorem no_call_on_validation_failure_witness:
  "CHR ''@'' \<notin> set (strip (email no_at_submission))
   \<and> snd (send_message failing_world no_at_submission) = []
   \<and> (\<exists>e. fst (send_message failing_world no_at_submission) = Inl e)"
proof -
  have h: "CHR ''@'' \<notin> set (strip (email no_at_submission))"
    by (simp add: no_at_submission_def strip_def isspace_def)
  then have "strip (name no_at_submission) = [] \<or> strip (email no_at_submission) = []
     \<or> strip (message no_at_submission) = []
     \<or> 4096 < length (strip (message no_at_submission))
     \<or> CHR ''@'' \<notin> set (strip (email no_at_submission))
     \<or> CHR ''.'' \<notin> set (split (CHR ''@'') (strip (email no_at_submission)) ! 1)"
    by blast
  from no_call_on_validation_failure [OF this, of failing_world] h show ?thesis by blast
qed


section \<open>The notification\<close>

text \<open>
  Claim C9. For a valid submission the handler constructs the \<open>Bot\<close> and, unless that
  raises, makes exactly one \<open>send_message\<close> call, to the configured chat, as Markdown,
  with the notification sound off. Its text is, in this order: the bold header line; the
  italic line \<open>Received on\<close> with the current UTC time at second precision, without any
  fraction of a second, followed by \<open> UTC\<close>; a separator line; the bold label of the sender
  details; the trimmed name; the trimmed e-mail; a second separator line; the bold label
  of the message; and the trimmed message as it is. The time is
  \<open>YYYY-MM-DDTHH:MM:SS\<close>; on a full second, where \<open>isoformat\<close> prints no fraction and so
  no dot to split at, the offset \<open>+00:00\<close> stays between the time and \<open> UTC\<close>.
\<close>

theorem notification_text:
  assumes "strip (name d) \<noteq> []" "strip (email d) \<noteq> []" "strip (message d) \<noteq> []"
    and "length (strip (message d)) \<le> 4096"
    and "CHR ''@'' \<in> set (strip (email d))"
    and "CHR ''.'' \<in> set (split (CHR ''@'') (strip (email d)) ! 1)"
  shows "snd (send_message w d) =
     (case Bot w (TELEGRAM_BOT_TOKEN w) of
        Some e \<Rightarrow> [Bot_init (TELEGRAM_BOT_TOKEN w)]
      | None \<Rightarrow>
          [Bot_init (TELEGRAM_BOT_TOKEN w),
           Bot_send_message
             \<lparr>chat_id = TELEGRAM_CHAT_ID w,
              text' =
                ''*New Message*\<newline>_Received on: ''
                @ zfill 4 (year (utc_now w)) @ ''-'' @ zfill 2 (month (utc_now w)) @ ''-''
                @ zfill 2 (day (utc_now w)) @ ''T'' @ zfill 2 (hour (utc_now w)) @ '':''
                @ zfill 2 (minute (utc_now w)) @ '':'' @ zfill 2 (second (utc_now w))
                @ (if microsecond (utc_now w) = 0 then ''+00:00'' else '''')
                @ '' UTC_\<newline>---\<newline>*Sender Details:*\<newline>- *Name:* ''
                @ strip (name d)
                @ ''\<newline>- *Email:* '' @ strip (email d)
                @ ''\<newline>---\<newline>*Message:*\<newline>'' @ strip (message d),
              parse_mode = ''Markdown'',
              disable_notification = True\<rparr>])"
proof -
  have n: "notification w (strip (name d)) (strip (email d)) (strip (message d)) =
     \<lparr>chat_id = TELEGRAM_CHAT_ID w,
              text' =
                ''*New Message*\<newline>_Received on: ''
                @ zfill 4 (year (utc_now w)) @ ''-'' @ zfill 2 (month (utc_now w)) @ ''-''
                @ zfill 2 (day (utc_now w)) @ ''T'' @ zfill 2 (hour (utc_now w)) @ '':''
                @ zfill 2 (minute (utc_now w)) @ '':'' @ zfill 2 (second (utc_now w))
                @ (if microsecond (utc_now w) = 0 then ''+00:00'' else '''')
                @ '' UTC_\<newline>---\<newline>*Sender Details:*\<newline>- *Name:* ''
                @ strip (name d)
                @ ''\<newline>- *Email:* '' @ strip (email d)
                @ ''\<newline>---\<newline>*Message:*\<newline>'' @ strip (message d),
              parse_mode = ''Markdown'',
              disable_notification = True\<rparr>"
    unfolding notification_def Let_def telegram_message_def hd_split_isoformat by simp
  have "snd (send_message w d) = snd (send_message_try w d)"
    by (cases "send_message_try w d") (simp add: send_message_def split: sum.splits)
  also have "\<dots> = (case Bot w (TELEGRAM_BOT_TOKEN w) of
        Some e \<Rightarrow> [Bot_init (TELEGRAM_BOT_TOKEN w)]
      | None \<Rightarrow>
          [Bot_init (TELEGRAM_BOT_TOKEN w),
           Bot_send_message
             (notification w (strip (name d)) (strip (email d)) (strip (message d)))])"
    by (simp add: try_valid [OF assms] split: option.splits exn.splits)
  finally show ?thesis unfolding n .
qed

theorem notification_text_witness:
  "strip (name valid_submission) \<noteq> [] \<and> strip (email valid_submission) \<noteq> []
   \<and> strip (message valid_submission) \<noteq> []
   \<and> length (strip (message valid_submission)) \<le> 4096
   \<and> CHR ''@'' \<in> set (strip (email valid_submission))
   \<and> CHR ''.'' \<in> set (split (CHR ''@'') (strip (email valid_submission)) ! 1)
   \<and> snd (send_message accepting_world valid_submission) =
       [Bot_init (Some ''123456:token''),
        Bot_send_message
          \<lparr>chat_id = Some ''42'',
           text' = ''*New Message*\<newline>_Received on: 2024-01-02T03:04:05 UTC_\<newline>---\<newline>*Sender Details:*\<newline>- *Name:* Al\<newline>- *Email:* al@example.org\<newline>---\<newline>*Message:*\<newline>hi there'',
           parse_mode = ''Markdown'', disable_notification = True\<rparr>]"
proof -
  have h: "strip (name valid_submission) \<noteq> []" "strip (email valid_submission) \<noteq> []"
    "strip (message valid_submission) \<noteq> []"
    "length (strip (message valid_submission)) \<le> 4096"
    "CHR ''@'' \<in> set (strip (email valid_submission))"
    "CHR ''.'' \<in> set (split (CHR ''@'') (strip (email valid_submission)) ! 1)"
    by (simp_all add: valid_submission_facts)
  from notification_text [OF h, of accepting_world] h show ?thesis
    by (simp add: accepting_world_def example_now_def valid_submission_facts zfill_examples)
qed


section \<open>The health check\<close>

text \<open>
  Claim C8, as the code has it. \<open>health_check\<close> has no failing path and returns the
  status \<open>healthy\<close>, the description "Telegram backend is running", and a timestamp that
  is the whole \<open>isoformat\<close> of the current UTC time followed by \<open> UTC\<close>: the date and the
  time to the second, then, unless the microsecond is zero, a dot and the microsecond,
  which has six digits for every clock reading, then the offset \<open>+00:00\<close>. Nothing is cut
  off, unlike in \<open>send_message\<close>.
\<close>

theorem health_check_timestamp:
  "health_check w =
     [(''status'', JStr ''healthy''),
      (''message'', JStr ''Telegram backend is running''),
      (''timestamp'', JStr
         (zfill 4 (year (utc_now w)) @ ''-'' @ zfill 2 (month (utc_now w)) @ ''-''
          @ zfill 2 (day (utc_now w)) @ ''T'' @ zfill 2 (hour (utc_now w)) @ '':''
          @ zfill 2 (minute (utc_now w)) @ '':'' @ zfill 2 (second (utc_now w))
          @ (if microsecond (utc_now w) = 0 then ''''
             else ''.'' @ zfill 6 (microsecond (utc_now w)))
          @ ''+00:00 UTC''))]
   \<and> (microsecond (utc_now w) < 1000000 \<longrightarrow>
        length (zfill 6 (microsecond (utc_now w))) = 6)"
proof
  show "health_check w =
     [(''status'', JStr ''healthy''),
      (''message'', JStr ''Telegram backend is running''),
      (''timestamp'', JStr
         (zfill 4 (year (utc_now w)) @ ''-'' @ zfill 2 (month (utc_now w)) @ ''-''
          @ zfill 2 (day (utc_now w)) @ ''T'' @ zfill 2 (hour (utc_now w)) @ '':''
          @ zfill 2 (minute (utc_now w)) @ '':'' @ zfill 2 (second (utc_now w))
          @ (if microsecond (utc_now w) = 0 then ''''
             else ''.'' @ zfill 6 (microsecond (utc_now w)))
          @ ''+00:00 UTC''))]"
    unfolding health_check_def isoformat_def by simp
  show "microsecond (utc_now w) < 1000000 \<longrightarrow>
        length (zfill 6 (microsecond (utc_now w))) = 6"
  proof
    assume "microsecond (utc_now w) < 1000000"
    then have "microsecond (utc_now w) < 10 ^ 6" by simp
    moreover have "0 < (6::nat)" by simp
    ultimately show "length (zfill 6 (microsecond (utc_now w))) = 6"
      by (rule length_zfill [rotated])
  qed
qed

theorem health_check_timestamp_witness:
  "microsecond (utc_now accepting_world) < 1000000
   \<and> health_check accepting_world =
     [(''status'', JStr ''healthy''),
      (''message'', JStr ''Telegram backend is running''),
      (''timestamp'', JStr ''2024-01-02T03:04:05.123456+00:00 UTC'')]
   \<and> length (zfill 6 (microsecond (utc_now accepting_world))) = 6"
proof -
  have h: "microsecond (utc_now accepting_world) < 1000000"
    by (simp add: accepting_world_def example_now_def)
  from health_check_timestamp [of accepting_world] h show ?thesis
    by (simp add: accepting_world_def example_now_def zfill_examples)
qed

text \<open>
  The timestamp is not at second precision: at 03:04:05.123456 it shows the microseconds,
  and differs from the timestamp on the full second 03:04:05.
\<close>

theorem health_check_not_second_precision:
  "health_check accepting_world =
     [(''status'', JStr ''healthy''),
      (''message'', JStr ''Telegram backend is running''),
      (''timestamp'', JStr ''2024-01-02T03:04:05.123456+00:00 UTC'')]
   \<and> health_check (accepting_world\<lparr>utc_now := example_now_full_second\<rparr>) =
     [(''status'', JStr ''healthy''),
      (''message'', JStr ''Telegram backend is running''),
      (''timestamp'', JStr ''2024-01-02T03:04:05+00:00 UTC'')]
   \<and> health_check accepting_world
       \<noteq> health_check (accepting_world\<lparr>utc_now := example_now_full_second\<rparr>)"
proof -
  have a: "health_check accepting_world =
     [(''status'', JStr ''healthy''),
      (''message'', JStr ''Telegram backend is running''),
      (''timestamp'', JStr ''2024-01-02T03:04:05.123456+00:00 UTC'')]"
    by (simp add: health_check_def isoformat_def accepting_world_def example_now_def
        zfill_examples)
  have b: "health_check (accepting_world\<lparr>utc_now := example_now_full_second\<rparr>) =
     [(''status'', JStr ''healthy''),
      (''message'', JStr ''Telegram backend is running''),
      (''timestamp'', JStr ''2024-01-02T03:04:05+00:00 UTC'')]"
    by (simp add: health_check_def isoformat_def example_now_full_second_def zfill_examples)
  show ?thesis unfolding a b by simp
qed

section \<open>What the validation failures are answered with\<close>

text \<open>
  Claim C1, at a request whose name is blank. Line 66 raises an \<open>HTTPException\<close> with
  status 400 and the detail "All fields must not be empty"; the handler of line 100
  catches it, and the caller gets status 500 with that detail after
  \<open>Server error: 400: \<close>. No call is made.
\<close>

theorem blank_field_answered_with_500: "send_message w blank_name_submission =
    (Inl (HTTPException 500 ''Server error: 400: All fields must not be empty''), [])"
proof -
  have "strip (name blank_name_submission) = []"
    by (simp add: blank_name_submission_def strip_def isspace_def)
  then have "send_message_try w blank_name_submission =
      (Inl (HTTPException 400 ''All fields must not be empty''), [])"
    by (simp add: try_empty)
  from send_message_Inl [OF this] show ?thesis by (simp add: str_nat_400)
qed

text \<open>
  Claim C2, at a request whose e-mail has no \<open>@\<close>. Line 70 raises an \<open>HTTPException\<close>
  with status 400 and the detail "Invalid email format"; the caller gets status 500 with
  that detail after \<open>Server error: 400: \<close>. No call is made.
\<close>

theorem malformed_email_answered_with_500: "send_message w no_at_submission =
    (Inl (HTTPException 500 ''Server error: 400: Invalid email format''), [])"
proof -
  have "strip (name no_at_submission) \<noteq> []" "strip (email no_at_submission) \<noteq> []"
    "strip (message no_at_submission) \<noteq> []" "length (strip (message no_at_submission)) \<le> 4096"
    "CHR ''@'' \<notin> set (strip (email no_at_submission))
     \<or> CHR ''.'' \<notin> set (split (CHR ''@'') (strip (email no_at_submission)) ! 1)"
    by (simp_all add: no_at_submission_def strip_def isspace_def)
  then have "send_message_try w no_at_submission =
      (Inl (HTTPException 400 ''Invalid email format''), [])"
    by (rule try_bad_email)
  from send_message_Inl [OF this] show ?thesis by (simp add: str_nat_400)
qed

text \<open>
  Claim C4, at a request whose message has 4097 characters and whose e-mail is malformed
  as well. The length rule is the one reported, line 68 raising an \<open>HTTPException\<close> with
  status 400; the caller gets status 500 with the detail of the length rule after
  \<open>Server error: 400: \<close>. No call is made.
\<close>

theorem long_message_answered_with_500: "send_message w long_submission =
    (Inl (HTTPException 500 ''Server error: 400: Message exceeds 4096 character limit''), [])"
proof -
  have "strip (name long_submission) \<noteq> []" "strip (email long_submission) \<noteq> []"
    "strip (message long_submission) \<noteq> []" "4096 < length (strip (message long_submission))"
    by (simp_all add: long_submission_def strip_long) (simp_all add: strip_def isspace_def)
  then have "send_message_try w long_submission =
      (Inl (HTTPException 400 ''Message exceeds 4096 character limit''), [])"
    by (rule try_too_long)
  from send_message_Inl [OF this] show ?thesis by (simp add: str_nat_400)
qed

end
